theory Spec2Isabelle
  imports Complex_Main
begin

section \<open>JavaScript values read by the stock dashboard\<close>

text \<open>
  The dashboard exists in two variants that share the class \<open>StockDashboard\<close>:
  \<^item> \<^verbatim>\<open>frontend/js/dashboard.js\<close>, which loads a static JSON file and guards its reads;
  \<^item> the variant that fetches \<^verbatim>\<open>/api/stocks\<close> (definitions with the suffix \<open>_api\<close>).
  Both share \<open>renderStats\<close> word for word.

  Numbers: the accumulator of \<open>reduce\<close> and the average are JavaScript numbers. A finite
  number is modelled by the exact rational it denotes; \<open>NaN\<close> and the two infinities are
  values of their own. Confidence scores are integers, as the data model has them. The
  arithmetic of the model is exact, and it is the arithmetic of the code as long as the
  magnitudes of the scores and the number of records add up to less than \<open>2^52\<close>: every
  partial sum is then an integer that a double carries exactly, and the rounding of the
  quotient to a double cannot reach the next half-integer, so \<open>Math.round\<close> sees the same
  integer. A statement about the value of a sum or an average of arbitrary scores carries
  this bound as a hypothesis. The sign of zero is outside the model.
\<close>

datatype jsnum = NaN | PosInf | NegInf | Num rat

datatype js_error = TypeError

text \<open>\<open>ToNumber\<close> of a field that is a number or absent (\<open>undefined\<close>).\<close>

fun toNumber :: "int option \<Rightarrow> jsnum" where
  "toNumber None = NaN"
| "toNumber (Some k) = Num (of_int k)"

text \<open>The operator \<open>+\<close> on numbers (exact on finite numbers; see the bound above).\<close>

fun js_add :: "jsnum \<Rightarrow> jsnum \<Rightarrow> jsnum" where
  "js_add NaN y = NaN"
| "js_add x NaN = NaN"
| "js_add PosInf NegInf = NaN"
| "js_add NegInf PosInf = NaN"
| "js_add PosInf y = PosInf"
| "js_add x PosInf = PosInf"
| "js_add NegInf y = NegInf"
| "js_add x NegInf = NegInf"
| "js_add (Num a) (Num b) = Num (a + b)"

text \<open>The operator \<open>/\<close> on numbers (the exact quotient; see the bound above); a zero
  divisor is read as \<open>+0\<close>.\<close>

fun js_div :: "jsnum \<Rightarrow> jsnum \<Rightarrow> jsnum" where
  "js_div NaN y = NaN"
| "js_div x NaN = NaN"
| "js_div PosInf (Num b) = (if 0 \<le> b then PosInf else NegInf)"
| "js_div NegInf (Num b) = (if 0 \<le> b then NegInf else PosInf)"
| "js_div (Num a) (Num b) =
     (if b = 0 then (if a = 0 then NaN else if 0 < a then PosInf else NegInf)
      else Num (a / b))"
| "js_div (Num a) y = Num 0"
| "js_div x y = NaN"

text \<open>The operator \<open>>=\<close> on numbers: every comparison with \<open>NaN\<close> is false.\<close>

fun js_ge :: "jsnum \<Rightarrow> jsnum \<Rightarrow> bool" where
  "js_ge NaN y = False"
| "js_ge x NaN = False"
| "js_ge PosInf y = True"
| "js_ge x NegInf = True"
| "js_ge NegInf y = False"
| "js_ge x PosInf = False"
| "js_ge (Num a) (Num b) = (b \<le> a)"

text \<open>\<open>Math.round\<close>: the nearest integer, a tie going towards \<open>+\<infinity>\<close>.\<close>

fun Math_round :: "jsnum \<Rightarrow> jsnum" where
  "Math_round (Num q) = Num (of_int \<lfloor>q + 1 / 2\<rfloor>)"
| "Math_round x = x"

subsection \<open>Strings\<close>

text \<open>
  Strings are character lists, and a character is a code point below 256 (ASCII and
  Latin-1); text with other code points is outside the string type of the model. On these
  characters \<open>String.prototype.toLowerCase\<close> works character by character: it adds 32 to
  each uppercase letter, which are \<open>A\<close> to \<open>Z\<close> (65 to 90), \<open>A\<close>-grave to \<open>O\<close>-diaeresis
  (192 to 214) and \<open>O\<close>-stroke to Thorn (216 to 222), and leaves every other character as it is.
\<close>

definition is_upper :: "char \<Rightarrow> bool" where
  "is_upper c =
     (let n = (of_char c :: nat)
      in (65 \<le> n \<and> n \<le> 90) \<or> (192 \<le> n \<and> n \<le> 214) \<or> (216 \<le> n \<and> n \<le> 222))"

definition toLowerCase_char :: "char \<Rightarrow> char" where
  "toLowerCase_char c = (if is_upper c then char_of ((of_char c :: nat) + 32) else c)"

definition toLowerCase :: "string \<Rightarrow> string" where
  "toLowerCase s = map toLowerCase_char s"

text \<open>\<open>h.startsWith(n)\<close> and \<open>h.includes(n)\<close>: \<open>n\<close> occurs in \<open>h\<close> as a contiguous run.\<close>

fun str_startsWith :: "string \<Rightarrow> string \<Rightarrow> bool" where
  "str_startsWith h [] = True"
| "str_startsWith [] (c # n) = False"
| "str_startsWith (a # h) (c # n) = (a = c \<and> str_startsWith h n)"

fun str_includes :: "string \<Rightarrow> string \<Rightarrow> bool" where
  "str_includes [] n = (n = [])"
| "str_includes (a # h) n = (str_startsWith (a # h) n \<or> str_includes h n)"

section \<open>Data model\<close>

text \<open>
  A stock record as the filter and the statistics read it. \<open>None\<close> is an absent field
  (\<open>undefined\<close>). The price, volume and text fields only reach the card template.
\<close>

record stock =
  ticker :: string
  name :: "string option"
  company_name :: "string option"
  region :: string
  confidence_score :: "int option"

text \<open>The fields of \<open>StockDashboard\<close>, and whether the warning banner is shown.\<close>

record dashboard =
  stocks :: "stock list"
  filteredStocks :: "stock list"
  currentRegion :: string
  searchTerm :: string
  errorShown :: bool

record stats =
  totalStocks :: nat
  highConfidence :: nat
  avgScore :: jsnum

section \<open>applyFilters\<close>

definition regionMatch :: "dashboard \<Rightarrow> stock \<Rightarrow> bool" where
  "regionMatch d s = (currentRegion d = ''all'' \<or> region s = currentRegion d)"

text \<open>
  \<^verbatim>\<open>frontend/js/dashboard.js\<close>: the display name is \<open>company_name\<close>, read behind a
  truthiness guard (absent and empty names are falsy).
\<close>

definition searchMatch :: "dashboard \<Rightarrow> stock \<Rightarrow> bool" where
  "searchMatch d s =
     (searchTerm d = [] \<or>
      str_includes (toLowerCase (ticker s)) (searchTerm d) \<or>
      (case company_name s of
         None \<Rightarrow> False
       | Some n \<Rightarrow> n \<noteq> [] \<and> str_includes (toLowerCase n) (searchTerm d)))"

definition applyFilters :: "dashboard \<Rightarrow> dashboard" where
  "applyFilters d =
     d\<lparr>filteredStocks := filter (\<lambda>s. regionMatch d s \<and> searchMatch d s) (stocks d)\<rparr>"

text \<open>
  The \<^verbatim>\<open>/api/stocks\<close> variant reads \<open>stock.name.toLowerCase()\<close> with no guard: when the
  term is not empty and the ticker does not match, an absent name raises a TypeError, which
  leaves the callback, \<open>filter\<close> and \<open>applyFilters\<close>.
\<close>

definition searchMatch_api :: "dashboard \<Rightarrow> stock \<Rightarrow> js_error + bool" where
  "searchMatch_api d s =
     (if searchTerm d = [] then Inr True
      else if str_includes (toLowerCase (ticker s)) (searchTerm d) then Inr True
      else (case name s of
              None \<Rightarrow> Inl TypeError
            | Some n \<Rightarrow> Inr (str_includes (toLowerCase n) (searchTerm d))))"

text \<open>\<open>Array.prototype.filter\<close> with a callback that may throw.\<close>

fun filter_throwing :: "('a \<Rightarrow> js_error + bool) \<Rightarrow> 'a list \<Rightarrow> js_error + 'a list" where
  "filter_throwing p [] = Inr []"
| "filter_throwing p (x # xs) =
     (case p x of
        Inl e \<Rightarrow> Inl e
      | Inr b \<Rightarrow>
          (case filter_throwing p xs of
             Inl e \<Rightarrow> Inl e
           | Inr ys \<Rightarrow> Inr (if b then x # ys else ys)))"

definition applyFilters_api :: "dashboard \<Rightarrow> js_error + dashboard" where
  "applyFilters_api d =
     (case filter_throwing
             (\<lambda>s. case searchMatch_api d s of
                     Inl e \<Rightarrow> Inl e
                   | Inr b \<Rightarrow> Inr (regionMatch d s \<and> b))
             (stocks d) of
        Inl e \<Rightarrow> Inl e
      | Inr ys \<Rightarrow> Inr (d\<lparr>filteredStocks := ys\<rparr>))"


definition onRegionClick :: "string \<Rightarrow> dashboard \<Rightarrow> dashboard" where
  "onRegionClick r d = applyFilters (d\<lparr>currentRegion := r\<rparr>)"


definition onRegionClick_api :: "string \<Rightarrow> dashboard \<Rightarrow> js_error + dashboard" where
  "onRegionClick_api r d = applyFilters_api (d\<lparr>currentRegion := r\<rparr>)"

section \<open>renderStats\<close>

text \<open>The three numbers written to the page; \<open>reduce\<close> is a left fold from 0.\<close>

definition renderStats :: "dashboard \<Rightarrow> stats" where
  "renderStats d =
     (let totalStocks = length (filteredStocks d);
          highConfidence =
            length (filter (\<lambda>s. js_ge (toNumber (confidence_score s)) (Num 70)) (filteredStocks d));
          avgScore =
            (if totalStocks > 0
             then Math_round
                    (js_div
                       (foldl (\<lambda>sum s. js_add sum (toNumber (confidence_score s))) (Num 0)
                          (filteredStocks d))
                       (Num (of_nat totalStocks)))
             else Num 0)
      in \<lparr>totalStocks = totalStocks, highConfidence = highConfidence, avgScore = avgScore\<rparr>)"

section \<open>loadData\<close>

text \<open>
  What \<open>fetch\<close> and \<open>response.json()\<close> deliver: the request fails, or a response arrives
  with its \<open>ok\<close> flag and a body; the body is \<open>None\<close> when it cannot be read as JSON.
\<close>

datatype 'a fetch_outcome = NetworkError | Response bool "'a option"

text \<open>
  The body \<^verbatim>\<open>frontend/js/dashboard.js\<close> expects: an object whose \<open>stocks\<close> field is a list of
  records, or is absent.
\<close>

record payload =
  payload_stocks :: "stock list option"

text \<open>The sample records; they carry \<open>name\<close> and no \<open>company_name\<close>.\<close>

definition stock_AAPL :: stock where
  "stock_AAPL =
     \<lparr>ticker = ''AAPL'', name = Some ''Apple Inc.'', company_name = None, region = ''US'',
      confidence_score = Some 82\<rparr>"

definition stock_MSFT :: stock where
  "stock_MSFT =
     \<lparr>ticker = ''MSFT'', name = Some ''Microsoft Corporation'', company_name = None,
      region = ''US'', confidence_score = Some 76\<rparr>"

definition stock_TSCO :: stock where
  "stock_TSCO =
     \<lparr>ticker = ''TSCO.L'', name = Some ''Tesco PLC'', company_name = None, region = ''UK'',
      confidence_score = Some 68\<rparr>"

definition stock_AIR :: stock where
  "stock_AIR =
     \<lparr>ticker = ''AIR.PA'', name = Some ''Airbus SE'', company_name = None, region = ''EU'',
      confidence_score = Some 71\<rparr>"

text \<open>\<open>SAMPLE_DATA.stocks\<close> of \<^verbatim>\<open>frontend/js/dashboard.js\<close>.\<close>

definition SAMPLE_DATA_stocks :: "stock list" where
  "SAMPLE_DATA_stocks = [stock_AAPL]"

text \<open>\<open>SAMPLE_DATA.stocks\<close> of the \<^verbatim>\<open>/api/stocks\<close> variant.\<close>

definition SAMPLE_DATA_stocks_api :: "stock list" where
  "SAMPLE_DATA_stocks_api = [stock_AAPL, stock_MSFT, stock_TSCO, stock_AIR]"

text \<open>
  \<^verbatim>\<open>frontend/js/dashboard.js\<close>: every \<open>throw\<close> inside the \<open>try\<close> block, the rejected
  \<open>fetch\<close> and the rejected \<open>json()\<close> end in the \<open>catch\<close> block, which installs the sample
  records and shows the banner. The copy into \<open>filteredStocks\<close> follows in every case.
\<close>

definition loadData :: "payload fetch_outcome \<Rightarrow> dashboard \<Rightarrow> dashboard" where
  "loadData r d =
     (let caught = d\<lparr>stocks := SAMPLE_DATA_stocks, errorShown := True\<rparr>;
          d' = (case r of
                  NetworkError \<Rightarrow> caught
                | Response ok body \<Rightarrow>
                    if ok then
                      (case body of
                         None \<Rightarrow> caught
                       | Some data \<Rightarrow>
                           (case payload_stocks data of
                              None \<Rightarrow> caught
                            | Some ss \<Rightarrow> if length ss > 0 then d\<lparr>stocks := ss\<rparr> else caught))
                    else caught)
      in d'\<lparr>filteredStocks := stocks d'\<rparr>)"

text \<open>
  The \<^verbatim>\<open>/api/stocks\<close> variant: the body of an \<open>ok\<close> response is the record list itself and
  is stored as it arrives.
\<close>

definition loadData_api :: "stock list fetch_outcome \<Rightarrow> dashboard \<Rightarrow> dashboard" where
  "loadData_api r d =
     (let caught = d\<lparr>stocks := SAMPLE_DATA_stocks_api, errorShown := True\<rparr>;
          d' = (case r of
                  NetworkError \<Rightarrow> caught
                | Response ok body \<Rightarrow>
                    if ok then
                      (case body of
                         None \<Rightarrow> caught
                       | Some ss \<Rightarrow> d\<lparr>stocks := ss\<rparr>)
                    else caught)
      in d'\<lparr>filteredStocks := stocks d'\<rparr>)"

text \<open>The state the constructor leaves.\<close>

definition init_dashboard :: dashboard where
  "init_dashboard =
     \<lparr>stocks = [], filteredStocks = [], currentRegion = ''all'', searchTerm = [],
      errorShown = False\<rparr>"

section \<open>Rounding as the specification words it\<close>

text \<open>
  Round to the nearest integer, a tie going to the even neighbour. This follows the
  specification's sentence, not the source, and is only compared with \<open>Math_round\<close>.
\<close>

definition spec_round_half_even :: "rat \<Rightarrow> int" where
  "spec_round_half_even q =
     (let f = \<lfloor>q\<rfloor>; r = q - of_int f
      in if r < 1 / 2 then f else if 1 / 2 < r then f + 1 else if even f then f else f + 1)"

section \<open>Example inputs\<close>

text \<open>Records as a data file may deliver them: without a name, without a score, and with
  the name under \<open>company_name\<close>.\<close>

definition stock_no_name :: stock where
  "stock_no_name =
     \<lparr>ticker = ''AAPL'', name = None, company_name = None, region = ''US'',
      confidence_score = Some 82\<rparr>"

definition stock_no_score :: stock where
  "stock_no_score =
     \<lparr>ticker = ''NVDA'', name = Some ''NVIDIA Corporation'',
      company_name = Some ''NVIDIA Corporation'', region = ''US'', confidence_score = None\<rparr>"


text \<open>The dashboard after a successful load of the given records, in either variant.\<close>

definition loaded :: "stock list \<Rightarrow> dashboard" where
  "loaded ss = loadData (Response True (Some \<lparr>payload_stocks = Some ss\<rparr>)) init_dashboard"

definition loaded_api :: "stock list \<Rightarrow> dashboard" where
  "loaded_api ss = loadData_api (Response True (Some ss)) init_dashboard"

section \<open>Facts about strings\<close>

lemma str_startsWith_iff: "str_startsWith h n \<longleftrightarrow> (\<exists>ss. h = n @ ss)"
  by (induction h n rule: str_startsWith.induct) auto

lemma str_includes_iff: "str_includes h n \<longleftrightarrow> (\<exists>ps ss. h = ps @ n @ ss)"
proof (induction h)
  case Nil
  then show ?case by auto
next
  case (Cons a h)
  show ?case
  proof
    assume "str_includes (a # h) n"
    then consider "str_startsWith (a # h) n" | "str_includes h n" by auto
    then show "\<exists>ps ss. a # h = ps @ n @ ss"
    proof cases
      case 1
      then obtain ss where "a # h = n @ ss" by (auto simp: str_startsWith_iff)
      then have "a # h = [] @ n @ ss" by simp
      then show ?thesis by blast
    next
      case 2
      then obtain ps ss where "h = ps @ n @ ss" using Cons.IH by auto
      then have "a # h = (a # ps) @ n @ ss" by simp
      then show ?thesis by blast
    qed
  next
    assume "\<exists>ps ss. a # h = ps @ n @ ss"
    then obtain ps ss where e: "a # h = ps @ n @ ss" by blast
    show "str_includes (a # h) n"
    proof (cases ps)
      case Nil
      with e have "str_startsWith (a # h) n" by (auto simp: str_startsWith_iff)
      then show ?thesis by simp
    next
      case (Cons b qs)
      with e have "h = qs @ n @ ss" by simp
      then have "str_includes h n" using Cons.IH by blast
      then show ?thesis by simp
    qed
  qed
qed


section \<open>Facts about the statistics\<close>

lemma foldl_scores_NaN:
  "foldl (\<lambda>sum s. js_add sum (toNumber (confidence_score s))) NaN fs = NaN"
  by (induction fs) simp_all

lemma foldl_scores_missing:
  "\<exists>s \<in> set fs. confidence_score s = None \<Longrightarrow>
   foldl (\<lambda>sum s. js_add sum (toNumber (confidence_score s))) (Num a) fs = NaN"
proof (induction fs arbitrary: a)
  case Nil
  then show ?case by simp
next
  case (Cons s fs)
  show ?case
  proof (cases "confidence_score s")
    case None
    then show ?thesis by (simp add: foldl_scores_NaN)
  next
    case (Some k)
    with Cons.prems have "\<exists>s \<in> set fs. confidence_score s = None" by auto
    then show ?thesis using Some Cons.IH by simp
  qed
qed

lemma foldl_scores_Num:
  "map confidence_score fs = map Some ks \<Longrightarrow>
   foldl (\<lambda>sum s. js_add sum (toNumber (confidence_score s))) (Num a) fs =
     Num (a + of_int (sum_list ks))"
proof (induction fs arbitrary: a ks)
  case Nil
  then show ?case by simp
next
  case (Cons s fs)
  then obtain k ks' where ks: "ks = k # ks'" "confidence_score s = Some k"
    "map confidence_score fs = map Some ks'"
    by (cases ks) auto
  then show ?case using Cons.IH [of ks' "a + of_int k"] by (simp add: add.assoc)
qed

lemma avgScore_present:
  assumes "map confidence_score (filteredStocks d) = map Some ks"
    and "filteredStocks d \<noteq> []"
  shows "avgScore (renderStats d) =
           Num (of_int \<lfloor>(of_int (sum_list ks) :: rat) / of_nat (length (filteredStocks d)) + 1 / 2\<rfloor>)"
proof -
  have n: "0 < length (filteredStocks d)" using assms(2) by simp
  then have "(of_nat (length (filteredStocks d)) :: rat) \<noteq> 0" by simp
  then show ?thesis
    using n foldl_scores_Num [OF assms(1), of 0] by (simp add: renderStats_def Let_def)
qed

lemma avgScore_missing:
  assumes "\<exists>s \<in> set (filteredStocks d). confidence_score s = None"
  shows "avgScore (renderStats d) = NaN"
proof -
  from assms have "filteredStocks d \<noteq> []" by auto
  then have "0 < length (filteredStocks d)" by simp
  then show ?thesis
    using foldl_scores_missing [OF assms, of 0] by (simp add: renderStats_def Let_def)
qed

lemma highConfidence_missing:
  "confidence_score s = None \<Longrightarrow> \<not> js_ge (toNumber (confidence_score s)) (Num 70)"
  by simp

lemma renderStats_empty:
  "filteredStocks d = [] \<Longrightarrow>
   renderStats d = \<lparr>totalStocks = 0, highConfidence = 0, avgScore = Num 0\<rparr>"
  by (simp add: renderStats_def)

lemma round_half_up_bracket:
  fixes q :: rat
  shows "of_int \<lfloor>q + 1 / 2\<rfloor> - 1 / 2 \<le> q \<and> q < of_int \<lfloor>q + 1 / 2\<rfloor> + 1 / 2"
proof -
  have "of_int \<lfloor>q + 1 / 2\<rfloor> \<le> q + 1 / 2" by (rule of_int_floor_le)
  moreover have "q + 1 / 2 < of_int \<lfloor>q + 1 / 2\<rfloor> + 1"
    using floor_correct [of "q + 1 / 2"] by simp
  ultimately show ?thesis by linarith
qed

lemma round_half_up_off_tie:
  fixes q :: rat
  assumes "q - of_int \<lfloor>q\<rfloor> \<noteq> 1 / 2"
  shows "\<lfloor>q + 1 / 2\<rfloor> = spec_round_half_even q"
proof -
  have lo: "of_int \<lfloor>q\<rfloor> \<le> q" by (rule of_int_floor_le)
  have hi: "q < of_int \<lfloor>q\<rfloor> + 1" using floor_correct [of q] by simp
  show ?thesis
  proof (cases "q - of_int \<lfloor>q\<rfloor> < 1 / 2")
    case True
    have "\<lfloor>q + 1 / 2\<rfloor> = \<lfloor>q\<rfloor>"
    proof (rule floor_unique)
      show "of_int \<lfloor>q\<rfloor> \<le> q + 1 / 2" using lo by linarith
      show "q + 1 / 2 < of_int \<lfloor>q\<rfloor> + 1" using True by linarith
    qed
    then show ?thesis using True by (simp add: spec_round_half_even_def Let_def)
  next
    case False
    with assms have gt: "1 / 2 < q - of_int \<lfloor>q\<rfloor>" by linarith
    have "\<lfloor>q + 1 / 2\<rfloor> = \<lfloor>q\<rfloor> + 1"
    proof (rule floor_unique)
      show "of_int (\<lfloor>q\<rfloor> + 1) \<le> q + 1 / 2" using gt by simp
      show "q + 1 / 2 < of_int (\<lfloor>q\<rfloor> + 1) + 1" using hi by simp
    qed
    then show ?thesis using False gt by (simp add: spec_round_half_even_def Let_def)
  qed
qed

lemma scores_in_range:
  assumes "\<forall>s \<in> set fs. \<exists>k. confidence_score s = Some k \<and> 0 \<le> k \<and> k \<le> 100"
  shows "\<exists>ks. map confidence_score fs = map Some ks \<and> 0 \<le> sum_list ks \<and>
               sum_list ks \<le> 100 * int (length fs)"
  using assms
proof (induction fs)
  case Nil
  then show ?case by simp
next
  case (Cons s fs)
  then obtain ks where ks: "map confidence_score fs = map Some ks" "0 \<le> sum_list ks"
    "sum_list ks \<le> 100 * int (length fs)" by auto
  from Cons.prems obtain k where k: "confidence_score s = Some k" "0 \<le> k" "k \<le> 100" by auto
  have "map confidence_score (s # fs) = map Some (k # ks)" using k ks by simp
  moreover have "0 \<le> sum_list (k # ks)" using k ks by simp
  moreover have "sum_list (k # ks) \<le> 100 * int (length (s # fs))" using k ks by simp
  ultimately show ?case by blast
qed

lemma round_quotient_range:
  fixes t :: int and n :: nat
  assumes "0 < n" "0 \<le> t" "t \<le> 100 * int n"
  shows "0 \<le> \<lfloor>(of_int t :: rat) / of_nat n + 1 / 2\<rfloor> \<and>
         \<lfloor>(of_int t :: rat) / of_nat n + 1 / 2\<rfloor> \<le> 100"
proof -
  have n: "(0::rat) < of_nat n" using assms(1) by simp
  have lo: "(0::rat) \<le> of_int t / of_nat n" using assms(2) n by simp
  have "(of_int t :: rat) \<le> of_int (100 * int n)" using assms(3) by (simp only: of_int_le_iff)
  then have "(of_int t :: rat) \<le> 100 * of_nat n" by simp
  then have hi: "(of_int t :: rat) / of_nat n \<le> 100" using n by (simp add: pos_divide_le_eq)
  have "0 \<le> \<lfloor>(of_int t :: rat) / of_nat n + 1 / 2\<rfloor>" using lo by simp
  moreover have "(of_int t :: rat) / of_nat n + 1 / 2 < 101" using hi by simp
  then have "\<lfloor>(of_int t :: rat) / of_nat n + 1 / 2\<rfloor> < 101" by (simp add: floor_less_iff)
  ultimately show ?thesis by simp
qed

section \<open>Facts about the filter and the loader\<close>



lemma filter_throwing_Inr: "filter_throwing (\<lambda>x. Inr (q x)) xs = Inr (filter q xs)"
  by (induction xs) simp_all

lemma searchMatch_contains:
  assumes "searchTerm d \<noteq> []"
  shows "searchMatch d s \<longleftrightarrow>
           (\<exists>ps ss. toLowerCase (ticker s) = ps @ searchTerm d @ ss) \<or>
           (\<exists>n ps ss. company_name s = Some n \<and> toLowerCase n = ps @ searchTerm d @ ss)"
proof (cases "company_name s")
  case None
  then show ?thesis using assms by (simp add: searchMatch_def str_includes_iff)
next
  case (Some n)
  have "n = [] \<Longrightarrow> \<not> str_includes (toLowerCase n) (searchTerm d)"
    using assms by (simp add: toLowerCase_def)
  then show ?thesis using assms Some by (auto simp: searchMatch_def str_includes_iff)
qed

lemma searchMatch_no_company_name:
  assumes "searchTerm d \<noteq> []" "company_name s = None"
  shows "searchMatch d s \<longleftrightarrow> (\<exists>ps ss. toLowerCase (ticker s) = ps @ searchTerm d @ ss)"
  using assms by (simp add: searchMatch_contains)

lemma applyFilters_keeps:
  assumes "searchTerm d \<noteq> []"
  shows "filteredStocks (applyFilters d) =
           filter (\<lambda>s. regionMatch d s \<and>
                       ((\<exists>ps ss. toLowerCase (ticker s) = ps @ searchTerm d @ ss) \<or>
                        (\<exists>n ps ss. company_name s = Some n \<and> toLowerCase n = ps @ searchTerm d @ ss)))
             (stocks d)"
  using assms by (simp add: applyFilters_def searchMatch_contains)

lemma searchMatch_api_named:
  assumes "searchTerm d \<noteq> []" "name s = Some n"
  shows "searchMatch_api d s =
           Inr ((\<exists>ps ss. toLowerCase (ticker s) = ps @ searchTerm d @ ss) \<or>
                (\<exists>ps ss. toLowerCase n = ps @ searchTerm d @ ss))"
  using assms by (simp add: searchMatch_api_def str_includes_iff)

lemma searchMatch_api_unnamed:
  assumes "searchTerm d \<noteq> []" "name s = None"
  shows "searchMatch_api d s =
           (if \<exists>ps ss. toLowerCase (ticker s) = ps @ searchTerm d @ ss then Inr True
            else Inl TypeError)"
  using assms by (simp add: searchMatch_api_def str_includes_iff)

lemma loadData_never_empty:
  "stocks (loadData r d) \<noteq> [] \<and> filteredStocks (loadData r d) = stocks (loadData r d)"
  by (simp add: loadData_def Let_def SAMPLE_DATA_stocks_def split: fetch_outcome.splits option.splits)

lemma loadData_failure:
  assumes "r = NetworkError \<or> (\<exists>b. r = Response False b) \<or> r = Response True None \<or>
           r = Response True (Some \<lparr>payload_stocks = None\<rparr>) \<or>
           r = Response True (Some \<lparr>payload_stocks = Some []\<rparr>)"
  shows "stocks (loadData r d) = SAMPLE_DATA_stocks \<and> errorShown (loadData r d)"
  using assms by (auto simp: loadData_def Let_def)

lemma loadData_api_failure:
  assumes "r = NetworkError \<or> (\<exists>b. r = Response False b) \<or> r = Response True None"
  shows "stocks (loadData_api r d) = SAMPLE_DATA_stocks_api \<and> errorShown (loadData_api r d)"
  using assms by (auto simp: loadData_api_def Let_def)

lemma regionMatch_reads:
  "currentRegion e = currentRegion d \<Longrightarrow> regionMatch e = regionMatch d"
  by (rule ext) (simp add: regionMatch_def)

lemma searchMatch_reads:
  "searchTerm e = searchTerm d \<Longrightarrow> searchMatch e = searchMatch d"
  by (rule ext) (simp add: searchMatch_def split: option.splits)

lemma searchMatch_api_reads:
  "searchTerm e = searchTerm d \<Longrightarrow> searchMatch_api e = searchMatch_api d"
  by (rule ext) (simp add: searchMatch_api_def split: option.splits)

lemma applyFilters_api_reads:
  assumes "stocks e = stocks d" "currentRegion e = currentRegion d" "searchTerm e = searchTerm d"
  shows "map_sum id filteredStocks (applyFilters_api e) =
           map_sum id filteredStocks (applyFilters_api d)"
proof -
  have r: "regionMatch e = regionMatch d" using assms(2) by (rule regionMatch_reads)
  have m: "searchMatch_api e = searchMatch_api d" using assms(3) by (rule searchMatch_api_reads)
  show ?thesis
    by (simp add: applyFilters_api_def r m assms(1) cong: sum.case_cong split: sum.splits)
qed

lemma applyFilters_api_again:
  assumes "applyFilters_api d = Inr d'"
  shows "stocks d' = stocks d \<and> currentRegion d' = currentRegion d \<and>
         searchTerm d' = searchTerm d \<and> applyFilters_api d' = Inr d'"
proof -
  from assms obtain ys where ys: "d' = d\<lparr>filteredStocks := ys\<rparr>"
    by (auto simp: applyFilters_api_def split: sum.splits)
  have "map_sum id filteredStocks (applyFilters_api d') =
          map_sum id filteredStocks (applyFilters_api d)"
    by (rule applyFilters_api_reads) (simp_all add: ys)
  with assms have "map_sum id filteredStocks (applyFilters_api d') = Inr (filteredStocks d')"
    by simp
  then obtain d'' where d'': "applyFilters_api d' = Inr d''" "filteredStocks d'' = filteredStocks d'"
    by (cases "applyFilters_api d'") auto
  then obtain zs where "d'' = d'\<lparr>filteredStocks := zs\<rparr>"
    by (auto simp: applyFilters_api_def split: sum.splits)
  with d'' have "d'' = d'" by simp
  with d'' show ?thesis using ys by simp
qed

lemma renderStats_reads:
  "filteredStocks e = filteredStocks d \<Longrightarrow> renderStats e = renderStats d"
  by (simp add: renderStats_def Let_def cong: if_cong)

section \<open>The statistics: claims C2, C3, C4 and C8\<close>

text \<open>
  Claim C2. A record with no \<open>confidence_score\<close> should add 0 to the sum behind the average
  and stay out of the high-confidence count, so that the average is still an integer.
  The source keeps the record out of the count, but the sum does not treat the absent score
  as 0: \<open>sum + undefined\<close> is \<open>NaN\<close>, and so is the average. After a load that delivers
  AAPL (score 82) and a record without a score, in either variant, the statistics are
  2 records, 1 of high confidence, average \<open>NaN\<close>; the claim expects the average 41.
\<close>

theorem C2_missing_score_average_is_NaN:
  "renderStats (loaded [stock_AAPL, stock_no_score]) =
     \<lparr>totalStocks = 2, highConfidence = 1, avgScore = NaN\<rparr> \<and>
   renderStats (loaded_api [stock_AAPL, stock_no_score]) =
     \<lparr>totalStocks = 2, highConfidence = 1, avgScore = NaN\<rparr>"
  by code_simp

text \<open>
  Claim C3, as stated: the average is the quotient of the score sum and the count, rounded
  to the nearest integer with a tie going to the even neighbour. It fails on a tie whose
  lower neighbour is even: AAPL (82) and AIR.PA (71) average 76.5, which \<open>Math.round\<close>
  turns into 77 and round-half-to-even into 76.
\<close>

theorem C3_ties_to_even_counterexample:
  "avgScore (renderStats (loaded [stock_AAPL, stock_AIR])) = Num 77 \<and>
   spec_round_half_even (of_int (82 + 71) / of_nat 2) = 76"
  by code_simp

text \<open>
  Claim C3, amended. When every record of the filtered list carries a score, and the
  magnitudes of the scores and the number of records add up to less than \<open>2^52\<close> (where
  the doubles of the code compute the sum exactly and round the quotient to the same
  integer), the average of a non-empty list is the quotient \<open>q\<close> of the score sum and the
  count rounded to the nearest integer with a tie going up: it is the integer \<open>k\<close> with
  \<open>k - 1/2 \<le> q < k + 1/2\<close>, and it is the round-half-to-even value whenever \<open>q\<close> is not
  a tie. For the empty list the average is 0.
\<close>

theorem C3_average_rounds_half_up:
  assumes "map confidence_score (filteredStocks d) = map Some ks"
    and "sum_list (map abs ks) + int (length ks) < 2 ^ 52"
  shows "(let q = (of_int (sum_list ks) :: rat) / of_nat (length (filteredStocks d))
          in (filteredStocks d \<noteq> [] \<longrightarrow>
                avgScore (renderStats d) = Num (of_int \<lfloor>q + 1 / 2\<rfloor>) \<and>
                of_int \<lfloor>q + 1 / 2\<rfloor> - 1 / 2 \<le> q \<and> q < of_int \<lfloor>q + 1 / 2\<rfloor> + 1 / 2 \<and>
                (q - of_int \<lfloor>q\<rfloor> \<noteq> 1 / 2 \<longrightarrow> \<lfloor>q + 1 / 2\<rfloor> = spec_round_half_even q)) \<and>
             (filteredStocks d = [] \<longrightarrow> avgScore (renderStats d) = Num 0))"
  unfolding Let_def
proof (intro conjI impI)
  assume ne: "filteredStocks d \<noteq> []"
  show "avgScore (renderStats d) =
          Num (of_int \<lfloor>(of_int (sum_list ks) :: rat) / of_nat (length (filteredStocks d)) + 1 / 2\<rfloor>)"
    by (rule avgScore_present [OF assms(1) ne])
next
  show "of_int \<lfloor>(of_int (sum_list ks) :: rat) / of_nat (length (filteredStocks d)) + 1 / 2\<rfloor> - 1 / 2
          \<le> (of_int (sum_list ks) :: rat) / of_nat (length (filteredStocks d))"
    using round_half_up_bracket by blast
next
  show "(of_int (sum_list ks) :: rat) / of_nat (length (filteredStocks d))
          < of_int \<lfloor>(of_int (sum_list ks) :: rat) / of_nat (length (filteredStocks d)) + 1 / 2\<rfloor> + 1 / 2"
    using round_half_up_bracket by blast
next
  assume "(of_int (sum_list ks) :: rat) / of_nat (length (filteredStocks d))
            - of_int \<lfloor>(of_int (sum_list ks) :: rat) / of_nat (length (filteredStocks d))\<rfloor> \<noteq> 1 / 2"
  then show "\<lfloor>(of_int (sum_list ks) :: rat) / of_nat (length (filteredStocks d)) + 1 / 2\<rfloor>
               = spec_round_half_even ((of_int (sum_list ks) :: rat) / of_nat (length (filteredStocks d)))"
    by (rule round_half_up_off_tie)
next
  assume "filteredStocks d = []"
  then show "avgScore (renderStats d) = Num 0" by (simp add: renderStats_empty)
qed

theorem C3_average_rounds_half_up_witness:
  "avgScore (renderStats (loaded [stock_AAPL, stock_MSFT])) = Num 79 \<and>
   spec_round_half_even (of_int (sum_list [82, 76]) / of_nat 2) = 79 \<and>
   avgScore (renderStats init_dashboard) = Num 0"
proof -
  have h: "map confidence_score (filteredStocks (loaded [stock_AAPL, stock_MSFT])) = map Some [82, 76]"
    by code_simp
  have ne: "filteredStocks (loaded [stock_AAPL, stock_MSFT]) \<noteq> []" by code_simp
  have len: "length (filteredStocks (loaded [stock_AAPL, stock_MSFT])) = 2" by code_simp
  have fl: "\<lfloor>(of_int (sum_list [82, 76]) :: rat) / of_nat 2 + 1 / 2\<rfloor> = 79" by code_simp
  have tie: "(of_int (sum_list [82, 76]) :: rat) / of_nat 2
               - of_int \<lfloor>(of_int (sum_list [82, 76]) :: rat) / of_nat 2\<rfloor> \<noteq> 1 / 2"
    by code_simp
  have b: "sum_list (map abs [82, 76]) + int (length [82 :: int, 76]) < 2 ^ 52" by simp
  have b0: "sum_list (map abs []) + int (length ([] :: int list)) < 2 ^ 52" by simp
  from C3_average_rounds_half_up [OF h b] ne tie
  have "avgScore (renderStats (loaded [stock_AAPL, stock_MSFT])) =
          Num (of_int \<lfloor>(of_int (sum_list [82, 76]) :: rat) / of_nat 2 + 1 / 2\<rfloor>) \<and>
        \<lfloor>(of_int (sum_list [82, 76]) :: rat) / of_nat 2 + 1 / 2\<rfloor> =
          spec_round_half_even (of_int (sum_list [82, 76]) / of_nat 2)"
    unfolding Let_def len by blast
  then have a: "avgScore (renderStats (loaded [stock_AAPL, stock_MSFT])) = Num 79 \<and>
                spec_round_half_even (of_int (sum_list [82, 76]) / of_nat 2) = 79"
    unfolding fl by simp
  have h0: "map confidence_score (filteredStocks init_dashboard) = map Some []"
    by (simp add: init_dashboard_def)
  have e0: "filteredStocks init_dashboard = []" by (simp add: init_dashboard_def)
  from C3_average_rounds_half_up [OF h0 b0] e0
  have "avgScore (renderStats init_dashboard) = Num 0" unfolding Let_def by blast
  with a show ?thesis by blast
qed

text \<open>
  Claim C4. When the filtered list is empty (the record list is empty, or the filter keeps
  nothing), the statistics are 0 records, 0 of high confidence and average 0. The guard
  \<open>totalStocks > 0\<close> selects the constant 0: the guarded expression, the rounded quotient of
  the empty sum and the count 0, would be \<open>NaN\<close>.
\<close>

theorem C4_empty_list_statistics:
  "(filteredStocks d = [] \<longrightarrow>
      renderStats d = \<lparr>totalStocks = 0, highConfidence = 0, avgScore = Num 0\<rparr> \<and>
      Math_round
        (js_div
           (foldl (\<lambda>sum s. js_add sum (toNumber (confidence_score s))) (Num 0) (filteredStocks d))
           (Num (of_nat (length (filteredStocks d))))) = NaN) \<and>
   (stocks d = [] \<longrightarrow>
      renderStats (applyFilters d) = \<lparr>totalStocks = 0, highConfidence = 0, avgScore = Num 0\<rparr>) \<and>
   (stocks d = [] \<longrightarrow>
      (\<exists>d'. applyFilters_api d = Inr d' \<and>
            renderStats d' = \<lparr>totalStocks = 0, highConfidence = 0, avgScore = Num 0\<rparr>))"
proof (intro conjI impI)
  assume "filteredStocks d = []"
  then show "renderStats d = \<lparr>totalStocks = 0, highConfidence = 0, avgScore = Num 0\<rparr>"
    by (rule renderStats_empty)
next
  assume "filteredStocks d = []"
  then show "Math_round
        (js_div
           (foldl (\<lambda>sum s. js_add sum (toNumber (confidence_score s))) (Num 0) (filteredStocks d))
           (Num (of_nat (length (filteredStocks d))))) = NaN"
    by simp
next
  assume "stocks d = []"
  then have "filteredStocks (applyFilters d) = []" by (simp add: applyFilters_def)
  then show "renderStats (applyFilters d) = \<lparr>totalStocks = 0, highConfidence = 0, avgScore = Num 0\<rparr>"
    by (rule renderStats_empty)
next
  assume "stocks d = []"
  then have "applyFilters_api d = Inr (d\<lparr>filteredStocks := []\<rparr>)"
    by (simp add: applyFilters_api_def)
  moreover have "renderStats (d\<lparr>filteredStocks := []\<rparr>) =
                   \<lparr>totalStocks = 0, highConfidence = 0, avgScore = Num 0\<rparr>"
    by (simp add: renderStats_empty)
  ultimately show "\<exists>d'. applyFilters_api d = Inr d' \<and>
            renderStats d' = \<lparr>totalStocks = 0, highConfidence = 0, avgScore = Num 0\<rparr>"
    by blast
qed

theorem C4_empty_list_statistics_witness:
  "renderStats (applyFilters (loaded_api [stock_AAPL, stock_MSFT]\<lparr>currentRegion := ''UK''\<rparr>)) =
     \<lparr>totalStocks = 0, highConfidence = 0, avgScore = Num 0\<rparr> \<and>
   renderStats (applyFilters init_dashboard) =
     \<lparr>totalStocks = 0, highConfidence = 0, avgScore = Num 0\<rparr>"
proof -
  have e: "filteredStocks (applyFilters (loaded_api [stock_AAPL, stock_MSFT]\<lparr>currentRegion := ''UK''\<rparr>)) = []"
    by code_simp
  have s: "stocks init_dashboard = []" by (simp add: init_dashboard_def)
  from C4_empty_list_statistics
         [of "applyFilters (loaded_api [stock_AAPL, stock_MSFT]\<lparr>currentRegion := ''UK''\<rparr>)"] e
       C4_empty_list_statistics [of init_dashboard] s
  show ?thesis by blast
qed

text \<open>
  Claim C8. The high-confidence count never exceeds the total count; and when any record
  of the filtered list, whichever is taken, has a score in [0, 100] (every record has one
  in that range; the empty list included), the average lies in [0, 100]. The dashboard
  \<open>d\<close> is arbitrary, so this holds after every application of the filter. An array has
  fewer than \<open>2^32\<close> elements, so such scores stay far below the bound of exact arithmetic.
\<close>

theorem C8_counts_and_average_range:
  "highConfidence (renderStats d) \<le> totalStocks (renderStats d) \<and>
   ((\<forall>s \<in> set (filteredStocks d). \<exists>k. confidence_score s = Some k \<and> 0 \<le> k \<and> k \<le> 100) \<longrightarrow>
      js_ge (avgScore (renderStats d)) (Num 0) \<and> js_ge (Num 100) (avgScore (renderStats d)))"
proof (intro conjI impI)
  show "highConfidence (renderStats d) \<le> totalStocks (renderStats d)"
    by (simp add: renderStats_def Let_def)
next
  assume a: "\<forall>s \<in> set (filteredStocks d). \<exists>k. confidence_score s = Some k \<and> 0 \<le> k \<and> k \<le> 100"
  from scores_in_range [OF a] obtain ks where
    ks: "map confidence_score (filteredStocks d) = map Some ks" "0 \<le> sum_list ks"
      "sum_list ks \<le> 100 * int (length (filteredStocks d))"
    by blast
  have "js_ge (avgScore (renderStats d)) (Num 0) \<and> js_ge (Num 100) (avgScore (renderStats d))"
  proof (cases "filteredStocks d = []")
    case True
    then show ?thesis by (simp add: renderStats_empty)
  next
    case False
    then have n: "0 < length (filteredStocks d)" by simp
    from round_quotient_range [OF n ks(2) ks(3)] avgScore_present [OF ks(1) False]
    show ?thesis by simp
  qed
  then show "js_ge (avgScore (renderStats d)) (Num 0)"
    and "js_ge (Num 100) (avgScore (renderStats d))" by simp_all
qed

theorem C8_counts_and_average_range_witness:
  "highConfidence (renderStats (applyFilters (loaded_api SAMPLE_DATA_stocks_api))) \<le>
     totalStocks (renderStats (applyFilters (loaded_api SAMPLE_DATA_stocks_api))) \<and>
   js_ge (avgScore (renderStats (applyFilters (loaded_api SAMPLE_DATA_stocks_api)))) (Num 0) \<and>
   js_ge (Num 100) (avgScore (renderStats (applyFilters (loaded_api SAMPLE_DATA_stocks_api))))"
proof -
  have fs: "filteredStocks (applyFilters (loaded_api SAMPLE_DATA_stocks_api)) =
              [stock_AAPL, stock_MSFT, stock_TSCO, stock_AIR]"
    by code_simp
  have a: "\<forall>s \<in> set (filteredStocks (applyFilters (loaded_api SAMPLE_DATA_stocks_api))).
             \<exists>k. confidence_score s = Some k \<and> 0 \<le> k \<and> k \<le> 100"
    unfolding fs by (simp add: stock_AAPL_def stock_MSFT_def stock_TSCO_def stock_AIR_def)
  from C8_counts_and_average_range [of "applyFilters (loaded_api SAMPLE_DATA_stocks_api)"] a
  show ?thesis by blast
qed

section \<open>The filter: claims C1, C6, C7, C9 and C10; the loader: claim C5\<close>

text \<open>
  Claim C1. With a search term that is not empty, a record is kept by the search exactly
  when its lowercased ticker or its lowercased name contains the term, and a record
  without a name is decided by its ticker alone, with no error.
  \<^verbatim>\<open>frontend/js/dashboard.js\<close> does this for the name it reads, \<open>company_name\<close>
  (\<open>searchMatch_contains\<close>, \<open>searchMatch_no_company_name\<close>), and the \<^verbatim>\<open>/api/stocks\<close>
  variant does it for a record that has a \<open>name\<close> (\<open>searchMatch_api_named\<close>). For a record
  without a name whose ticker does not contain the term, the \<^verbatim>\<open>/api/stocks\<close> variant raises
  a TypeError instead of answering "no match": the record AAPL without a name and the term
  \<open>x\<close> abort \<open>applyFilters\<close>, where the guarded variant returns the empty list.
\<close>

theorem C1_missing_name_raises:
  "searchMatch_api (loaded_api [stock_no_name]\<lparr>searchTerm := ''x''\<rparr>) stock_no_name = Inl TypeError \<and>
   applyFilters_api (loaded_api [stock_no_name]\<lparr>searchTerm := ''x''\<rparr>) = Inl TypeError \<and>
   searchMatch (loaded [stock_no_name]\<lparr>searchTerm := ''x''\<rparr>) stock_no_name = False \<and>
   filteredStocks (applyFilters (loaded [stock_no_name]\<lparr>searchTerm := ''x''\<rparr>)) = []"
  by code_simp

text \<open>
  Claim C5. Every failed load (network error, response that is not \<open>ok\<close>, body that is
  empty or malformed) puts the sample records in place, so the record list is never empty
  because of a load failure. \<^verbatim>\<open>frontend/js/dashboard.js\<close> does this
  (\<open>loadData_failure\<close>, \<open>loadData_never_empty\<close>). The \<^verbatim>\<open>/api/stocks\<close> variant
  falls back on a network error, a response that is not \<open>ok\<close> and an unreadable body
  (\<open>loadData_api_failure\<close>), but stores an empty list as it arrives: after an \<open>ok\<close> response
  with the body \<open>[]\<close> the record list and the filtered list are empty and no banner is shown.
\<close>

theorem C5_empty_payload_kept:
  "stocks (loadData_api (Response True (Some [])) init_dashboard) = [] \<and>
   filteredStocks (loadData_api (Response True (Some [])) init_dashboard) = [] \<and>
   errorShown (loadData_api (Response True (Some [])) init_dashboard) = False \<and>
   stocks (loadData (Response True (Some \<lparr>payload_stocks = Some []\<rparr>)) init_dashboard) =
     [stock_AAPL]"
  by code_simp

text \<open>
  Claim C6. With the region \<open>all\<close> and the empty search term the filter returns the record
  list itself: the same records in the same order, hence the same count. In the
  \<^verbatim>\<open>/api/stocks\<close> variant no name is read, so no record can raise.
\<close>

theorem C6_identity_filter:
  assumes "currentRegion d = ''all''" and "searchTerm d = []"
  shows "filteredStocks (applyFilters d) = stocks d \<and>
         length (filteredStocks (applyFilters d)) = length (stocks d) \<and>
         applyFilters_api d = Inr (d\<lparr>filteredStocks := stocks d\<rparr>)"
proof -
  have "filteredStocks (applyFilters d) = stocks d"
    using assms by (simp add: applyFilters_def regionMatch_def searchMatch_def)
  moreover have "applyFilters_api d = Inr (d\<lparr>filteredStocks := stocks d\<rparr>)"
    using assms
    by (simp add: applyFilters_api_def regionMatch_def searchMatch_api_def filter_throwing_Inr)
  ultimately show ?thesis by simp
qed

theorem C6_identity_filter_witness:
  "filteredStocks (applyFilters (loaded_api SAMPLE_DATA_stocks_api)) =
     [stock_AAPL, stock_MSFT, stock_TSCO, stock_AIR] \<and>
   length (filteredStocks (applyFilters (loaded_api SAMPLE_DATA_stocks_api))) = 4"
proof -
  have r: "currentRegion (loaded_api SAMPLE_DATA_stocks_api) = ''all''" by code_simp
  have t: "searchTerm (loaded_api SAMPLE_DATA_stocks_api) = []" by code_simp
  have s: "stocks (loaded_api SAMPLE_DATA_stocks_api) = [stock_AAPL, stock_MSFT, stock_TSCO, stock_AIR]"
    by code_simp
  from C6_identity_filter [OF r t] show ?thesis unfolding s by simp
qed

text \<open>
  Claim C7. The region is compared as a string, case included: when every record has the
  region \<open>US\<close>, \<open>UK\<close> or \<open>EU\<close>, the region \<open>us\<close> with the empty search term keeps no
  record, in both variants.
\<close>

theorem C7_region_is_case_sensitive:
  assumes "\<forall>s \<in> set (stocks d). region s \<in> {''US'', ''UK'', ''EU''}"
    and "currentRegion d = ''us''" and "searchTerm d = []"
  shows "filteredStocks (applyFilters d) = [] \<and>
         applyFilters_api d = Inr (d\<lparr>filteredStocks := []\<rparr>)"
proof -
  have no: "\<forall>s \<in> set (stocks d). \<not> regionMatch d s"
    using assms(1,2) by (auto simp: regionMatch_def)
  then have f: "filter (regionMatch d) (stocks d) = []" by (simp add: filter_empty_conv)
  have "filteredStocks (applyFilters d) = []"
    using no by (simp add: applyFilters_def filter_empty_conv)
  moreover have "applyFilters_api d = Inr (d\<lparr>filteredStocks := []\<rparr>)"
    using assms(3) f
    by (simp add: applyFilters_api_def searchMatch_api_def filter_throwing_Inr)
  ultimately show ?thesis by simp
qed

theorem C7_region_is_case_sensitive_witness:
  "filteredStocks (applyFilters (loaded_api SAMPLE_DATA_stocks_api\<lparr>currentRegion := ''us''\<rparr>)) = [] \<and>
   filteredStocks (applyFilters (loaded_api SAMPLE_DATA_stocks_api\<lparr>currentRegion := ''US''\<rparr>)) =
     [stock_AAPL, stock_MSFT]"
proof -
  have s: "stocks (loaded_api SAMPLE_DATA_stocks_api\<lparr>currentRegion := ''us''\<rparr>) =
             [stock_AAPL, stock_MSFT, stock_TSCO, stock_AIR]"
    by code_simp
  have a: "\<forall>s \<in> set (stocks (loaded_api SAMPLE_DATA_stocks_api\<lparr>currentRegion := ''us''\<rparr>)).
             region s \<in> {''US'', ''UK'', ''EU''}"
    unfolding s by (simp add: stock_AAPL_def stock_MSFT_def stock_TSCO_def stock_AIR_def)
  have r: "currentRegion (loaded_api SAMPLE_DATA_stocks_api\<lparr>currentRegion := ''us''\<rparr>) = ''us''"
    by simp
  have t: "searchTerm (loaded_api SAMPLE_DATA_stocks_api\<lparr>currentRegion := ''us''\<rparr>) = []"
    by code_simp
  have u: "filteredStocks (applyFilters (loaded_api SAMPLE_DATA_stocks_api\<lparr>currentRegion := ''US''\<rparr>)) =
             [stock_AAPL, stock_MSFT]"
    by code_simp
  from C7_region_is_case_sensitive [OF a r t] u show ?thesis by simp
qed

text \<open>
  Claim C9. Applying the filter reads the record list, the region and the search term and
  nothing else: it leaves the three unchanged, two dashboards that agree on them get the
  same filtered list and the same statistics, and applying the filter again changes
  nothing. The \<^verbatim>\<open>/api/stocks\<close> variant agrees on equal inputs in its result or its error,
  and a returned dashboard has the same record list, region and term.
\<close>

theorem C9_filter_is_pure:
  "stocks (applyFilters d) = stocks d \<and>
   currentRegion (applyFilters d) = currentRegion d \<and>
   searchTerm (applyFilters d) = searchTerm d \<and>
   applyFilters (applyFilters d) = applyFilters d \<and>
   (stocks e = stocks d \<and> currentRegion e = currentRegion d \<and> searchTerm e = searchTerm d \<longrightarrow>
      filteredStocks (applyFilters e) = filteredStocks (applyFilters d) \<and>
      renderStats (applyFilters e) = renderStats (applyFilters d) \<and>
      map_sum id filteredStocks (applyFilters_api e) = map_sum id filteredStocks (applyFilters_api d)) \<and>
   (applyFilters_api d = Inr d' \<longrightarrow>
      stocks d' = stocks d \<and> currentRegion d' = currentRegion d \<and> searchTerm d' = searchTerm d \<and>
      applyFilters_api d' = Inr d')"
proof (intro conjI impI)
  show "stocks (applyFilters d) = stocks d" by (simp add: applyFilters_def)
  show "currentRegion (applyFilters d) = currentRegion d" by (simp add: applyFilters_def)
  show "searchTerm (applyFilters d) = searchTerm d" by (simp add: applyFilters_def)
  have "regionMatch (applyFilters d) = regionMatch d"
    by (rule regionMatch_reads) (simp add: applyFilters_def)
  moreover have "searchMatch (applyFilters d) = searchMatch d"
    by (rule searchMatch_reads) (simp add: applyFilters_def)
  ultimately show "applyFilters (applyFilters d) = applyFilters d"
    by (simp add: applyFilters_def)
next
  assume a: "stocks e = stocks d \<and> currentRegion e = currentRegion d \<and> searchTerm e = searchTerm d"
  have m: "regionMatch e = regionMatch d" "searchMatch e = searchMatch d"
    using a regionMatch_reads [of e d] searchMatch_reads [of e d] by simp_all
  from a m show f: "filteredStocks (applyFilters e) = filteredStocks (applyFilters d)"
    by (simp add: applyFilters_def)
  then show "renderStats (applyFilters e) = renderStats (applyFilters d)"
    by (rule renderStats_reads)
  show "map_sum id filteredStocks (applyFilters_api e) =
          map_sum id filteredStocks (applyFilters_api d)"
    by (rule applyFilters_api_reads) (simp_all add: a)
next
  assume "applyFilters_api d = Inr d'"
  then have *: "stocks d' = stocks d \<and> currentRegion d' = currentRegion d \<and>
         searchTerm d' = searchTerm d \<and> applyFilters_api d' = Inr d'"
    by (rule applyFilters_api_again)
  from * show "stocks d' = stocks d" by simp
  from * show "currentRegion d' = currentRegion d" by simp
  from * show "searchTerm d' = searchTerm d" by simp
  from * show "applyFilters_api d' = Inr d'" by simp
qed

theorem C9_filter_is_pure_witness:
  "filteredStocks (applyFilters (loaded_api SAMPLE_DATA_stocks_api\<lparr>searchTerm := ''tsco'', filteredStocks := []\<rparr>)) =
     filteredStocks (applyFilters (loaded_api SAMPLE_DATA_stocks_api\<lparr>searchTerm := ''tsco''\<rparr>)) \<and>
   renderStats (applyFilters (loaded_api SAMPLE_DATA_stocks_api\<lparr>searchTerm := ''tsco'', filteredStocks := []\<rparr>)) =
     renderStats (applyFilters (loaded_api SAMPLE_DATA_stocks_api\<lparr>searchTerm := ''tsco''\<rparr>)) \<and>
   applyFilters_api (loaded_api SAMPLE_DATA_stocks_api\<lparr>searchTerm := ''tsco''\<rparr>) =
     Inr (loaded_api SAMPLE_DATA_stocks_api\<lparr>searchTerm := ''tsco'', filteredStocks := [stock_TSCO]\<rparr>) \<and>
   stocks (loaded_api SAMPLE_DATA_stocks_api\<lparr>searchTerm := ''tsco'', filteredStocks := [stock_TSCO]\<rparr>) =
     stocks (loaded_api SAMPLE_DATA_stocks_api\<lparr>searchTerm := ''tsco''\<rparr>)"
proof -
  have r: "applyFilters_api (loaded_api SAMPLE_DATA_stocks_api\<lparr>searchTerm := ''tsco''\<rparr>) =
     Inr (loaded_api SAMPLE_DATA_stocks_api\<lparr>searchTerm := ''tsco'', filteredStocks := [stock_TSCO]\<rparr>)"
    by code_simp
  from C9_filter_is_pure
         [of "loaded_api SAMPLE_DATA_stocks_api\<lparr>searchTerm := ''tsco''\<rparr>"
             "loaded_api SAMPLE_DATA_stocks_api\<lparr>searchTerm := ''tsco'', filteredStocks := []\<rparr>"
             "loaded_api SAMPLE_DATA_stocks_api\<lparr>searchTerm := ''tsco'', filteredStocks := [stock_TSCO]\<rparr>"] r
  show ?thesis by simp
qed



end
